theory Spec2Isabelle
  imports Main "HOL-Library.Sublist" "HOL-Library.Word"
begin

section \<open>JavaScript values\<close>

text \<open>
  A JavaScript string is a sequence of 16-bit code units. The string literals of the
  source are ASCII; \<open>js\<close> gives the code units of such a literal.
\<close>

type_synonym jsstring = "16 word list"

definition js :: "string \<Rightarrow> jsstring" where
  "js str = map of_char str"

text \<open>
  A JavaScript exception is a value of type \<open>error\<close>, and a function that may throw (an
  async function whose promise may reject) returns \<open>error + 'a\<close>, with \<open>Inl\<close> for the
  thrown error.
\<close>

datatype error = Error jsstring

section \<open>The Tutor Client (src/services/gemini.ts)\<close>

text \<open>The client object built by \<^verbatim>\<open>new GoogleGenAI({ apiKey: GEMINI_API_KEY })\<close>.\<close>

datatype GoogleGenAI = GoogleGenAI "jsstring option"

text \<open>The SDK's enumeration of thinking levels; the program only ever passes \<open>HIGH\<close>.\<close>

datatype ThinkingLevel = LOW | HIGH

text \<open>\<^verbatim>\<open>config: { systemInstruction, thinkingConfig: { thinkingLevel } }\<close>\<close>

datatype config = Config jsstring ThinkingLevel

text \<open>
  A part of the \<^verbatim>\<open>contents\<close> of a generateContent call: either
  \<^verbatim>\<open>{ inlineData: { data, mimeType } }\<close> or \<^verbatim>\<open>{ text }\<close>.
\<close>

datatype part = InlineData jsstring jsstring | TextPart jsstring

text \<open>One element \<^verbatim>\<open>{ parts: [...] }\<close> of \<^verbatim>\<open>contents\<close>.\<close>

datatype contents_entry = Contents "part list"

text \<open>The two roles of a turn, \<^verbatim>\<open>"user" | "model"\<close>.\<close>

datatype role = User | Model

text \<open>
  The type of a history entry of chatWithTutor,
  \<^verbatim>\<open>{ role: "user" | "model"; parts: { text: string }[] }\<close>: its parts carry text only.
\<close>

datatype text_part = Text jsstring

datatype history_entry = HistoryEntry role "text_part list"

text \<open>
  The two requests the client sends to the remote model:
  \<^verbatim>\<open>ai.models.generateContent({ model, contents, config })\<close>, and
  \<^verbatim>\<open>ai.chats.create({ model, config, history }).sendMessage({ message })\<close>.
\<close>

datatype request =
    GenerateContent GoogleGenAI jsstring "contents_entry list" config
  | SendMessage GoogleGenAI jsstring config "history_entry list" jsstring

text \<open>
  The remote model is a parameter of the embedding: for each request it either throws
  (network failure, rejection, malformed response) or resolves to a response, of which
  the program reads only \<^verbatim>\<open>response.text\<close>, a string or \<^verbatim>\<open>undefined\<close>.
\<close>

type_synonym remote = "request \<Rightarrow> error + jsstring option"

text \<open>
  \<^verbatim>\<open>!v\<close> for a value \<open>v\<close> of type \<^verbatim>\<open>string | undefined\<close>: true when \<open>v\<close> is undefined or
  the empty string.
\<close>

definition falsy :: "jsstring option \<Rightarrow> bool" where
  "falsy v = (case v of None \<Rightarrow> True | Some x \<Rightarrow> x = [])"

text \<open>\<^verbatim>\<open>v || d\<close> for \<open>v\<close> of type \<^verbatim>\<open>string | undefined\<close>.\<close>

definition or_else :: "jsstring option \<Rightarrow> jsstring \<Rightarrow> jsstring" where
  "or_else v d = (case v of None \<Rightarrow> d | Some x \<Rightarrow> if x = [] then d else x)"

definition SYSTEM_INSTRUCTION :: jsstring where
  \<open>SYSTEM_INSTRUCTION = js (
    ''You are Socrates, a compassionate and patient math tutor. \<newline>'' @
    ''Your goal is to help students solve calculus and algebra problems using the Socratic method.\<newline>'' @
    ''\<newline>'' @
    ''CRITICAL RULES:\<newline>'' @
    ''1. NEVER give the full solution or the final answer immediately.\<newline>'' @
    ''2. When a student uploads an image, identify the problem and walk them through ONLY the first step.\<newline>'' @
    ''3. Use a warm, encouraging, and patient tone.\<newline>'' @
    ''4. If a student asks "Why did we do that?" or seems stuck, explain the specific underlying concept or mathematical principle in simple terms before moving forward.\<newline>'' @
    ''5. After each explanation or step, ask a leading question to guide the student to the next logical step.\<newline>'' @
    ''6. Use LaTeX for mathematical notation (e.g., $x^2$, $'' @ [CHR 0x5C] @ ''int f(x) dx$).\<newline>'' @
    ''7. If the student gets a step right, praise them and move to the next step.\<newline>'' @
    ''8. If they get it wrong, gently point out the error and ask a question that helps them see the mistake.\<newline>'' @
    ''\<newline>'' @
    ''Your responses should be structured to be easily readable, using Markdown and LaTeX.'')\<close>

definition MODEL_NAME :: jsstring where
  "MODEL_NAME = js ''gemini-3.1-pro-preview''"

definition MISSING_KEY :: error where
  "MISSING_KEY = Error (js ''GEMINI_API_KEY is not set'')"

definition ANALYZE_PROMPT :: jsstring where
  "ANALYZE_PROMPT =
    (js ''Please analyze this math problem and guide me through the first step using the Socratic method.'')"

definition ANALYZE_EMPTY_TEXT :: jsstring where
  "ANALYZE_EMPTY_TEXT = js ''I'm sorry, I couldn't analyze the image. Could you try again?''"

definition CHAT_EMPTY_TEXT :: jsstring where
  "CHAT_EMPTY_TEXT = js ''I'm having trouble thinking right now. Let's try that again.''"

text \<open>
  The request analyzeMathProblem builds (lines 35 to 60); the argument \<open>key\<close> is the
  value of \<^verbatim>\<open>GEMINI_API_KEY\<close>, of type \<^verbatim>\<open>string | undefined\<close>.
\<close>

definition analyze_request :: "jsstring option \<Rightarrow> jsstring \<Rightarrow> jsstring \<Rightarrow> request" where
  "analyze_request key imageBuffer mimeType =
     GenerateContent (GoogleGenAI key) MODEL_NAME
       [Contents [InlineData imageBuffer mimeType, TextPart ANALYZE_PROMPT]]
       (Config SYSTEM_INSTRUCTION HIGH)"

text \<open>
  analyzeMathProblem. The first argument is the module constant
  \<^verbatim>\<open>GEMINI_API_KEY = process.env.GEMINI_API_KEY\<close>, the second the remote model. The result
  pairs what the promise settles to with the requests sent to the remote model, in
  order. The parameter \<open>history\<close> has the type \<^verbatim>\<open>any[]\<close> in the source.
\<close>

definition analyzeMathProblem ::
  "jsstring option \<Rightarrow> remote \<Rightarrow> jsstring \<Rightarrow> jsstring \<Rightarrow> 'h list \<Rightarrow> (error + jsstring) \<times> request list"
where
  "analyzeMathProblem GEMINI_API_KEY remote imageBuffer mimeType history =
     (if falsy GEMINI_API_KEY then (Inl MISSING_KEY, [])
      else
        let req = analyze_request GEMINI_API_KEY imageBuffer mimeType in
        case remote req of
          Inl e \<Rightarrow> (Inl e, [req])
        | Inr response_text \<Rightarrow> (Inr (or_else response_text ANALYZE_EMPTY_TEXT), [req]))"

text \<open>The request chatWithTutor builds (lines 73 to 84).\<close>

definition chat_request :: "jsstring option \<Rightarrow> jsstring \<Rightarrow> history_entry list \<Rightarrow> request" where
  "chat_request key message history =
     SendMessage (GoogleGenAI key) MODEL_NAME (Config SYSTEM_INSTRUCTION HIGH) history message"

definition chatWithTutor ::
  "jsstring option \<Rightarrow> remote \<Rightarrow> jsstring \<Rightarrow> history_entry list \<Rightarrow> (error + jsstring) \<times> request list"
where
  "chatWithTutor GEMINI_API_KEY remote message history =
     (if falsy GEMINI_API_KEY then (Inl MISSING_KEY, [])
      else
        let req = chat_request GEMINI_API_KEY message history in
        case remote req of
          Inl e \<Rightarrow> (Inl e, [req])
        | Inr response_text \<Rightarrow> (Inr (or_else response_text CHAT_EMPTY_TEXT), [req]))"

section \<open>The Conversation Store (the App component)\<close>

text \<open>\<^verbatim>\<open>interface Message { role; content; image? }\<close>; the optional field is an option.\<close>

record message =
  role :: role
  content :: jsstring
  image' :: "jsstring option"

text \<open>The component's state: one field for each \<^verbatim>\<open>useState\<close> hook.\<close>

record state =
  messages :: "message list"
  input :: jsstring
  isLoading :: bool
  selectedImage :: "jsstring option"
  mimeType :: "jsstring option"

text \<open>
  The state setters. \<^verbatim>\<open>setMessages\<close> is given an updater of the previous value
  (\<^verbatim>\<open>prev => ...\<close>); a call with a plain value is the constant updater.
\<close>

definition setMessages :: "(message list \<Rightarrow> message list) \<Rightarrow> state \<Rightarrow> state" where
  "setMessages f s = s\<lparr>messages := f (messages s)\<rparr>"

definition setInput :: "jsstring \<Rightarrow> state \<Rightarrow> state" where
  "setInput v s = s\<lparr>input := v\<rparr>"

definition setIsLoading :: "bool \<Rightarrow> state \<Rightarrow> state" where
  "setIsLoading v s = s\<lparr>isLoading := v\<rparr>"

definition setSelectedImage :: "jsstring option \<Rightarrow> state \<Rightarrow> state" where
  "setSelectedImage v s = s\<lparr>selectedImage := v\<rparr>"

definition setMimeType :: "jsstring option \<Rightarrow> state \<Rightarrow> state" where
  "setMimeType v s = s\<lparr>mimeType := v\<rparr>"

text \<open>
  What running a handler to completion gives: the error that escapes it, if any, the
  state it leaves, and the requests it sent to the remote model.
\<close>

record outcome =
  uncaught :: "error option"
  final :: state
  requests :: "request list"

text \<open>
  \<^verbatim>\<open>try { body } catch (error) { handler } finally { fin }\<close> over the state, for a
  finaliser that does not throw: the handler runs when the body threw, and the finaliser
  runs in every case.
\<close>

definition try_catch_finally ::
  "(state \<Rightarrow> error option \<times> state) \<Rightarrow> (error \<Rightarrow> state \<Rightarrow> error option \<times> state) \<Rightarrow>
   (state \<Rightarrow> state) \<Rightarrow> state \<Rightarrow> error option \<times> state"
where
  "try_catch_finally body handler fin s =
     (let (e1, s1) = body s;
          (e2, s2) = (case e1 of None \<Rightarrow> (None, s1) | Some err \<Rightarrow> handler err s1)
      in (e2, fin s2))"

text \<open>
  The code units that \<^verbatim>\<open>String.prototype.trim\<close> removes at both ends: the WhiteSpace
  and LineTerminator code points of ECMAScript, each a single code unit. These are tab,
  line feed, vertical tab, form feed, carriage return, space, no-break space, U+1680,
  U+2000 to U+200A, U+2028, U+2029, U+202F, U+205F, U+3000 and U+FEFF.
\<close>

definition isWhiteSpace :: "16 word \<Rightarrow> bool" where
  "isWhiteSpace c =
     (c = 0x09 \<or> c = 0x0A \<or> c = 0x0B \<or> c = 0x0C \<or> c = 0x0D \<or> c = 0x20 \<or> c = 0xA0 \<or>
      c = 0x1680 \<or> (0x2000 \<le> c \<and> c \<le> 0x200A) \<or> c = 0x2028 \<or> c = 0x2029 \<or>
      c = 0x202F \<or> c = 0x205F \<or> c = 0x3000 \<or> c = 0xFEFF)"

definition trim :: "jsstring \<Rightarrow> jsstring" where
  "trim str = rev (dropWhile isWhiteSpace (rev (dropWhile isWhiteSpace str)))"

definition USER_UPLOAD_TEXT :: jsstring where
  "USER_UPLOAD_TEXT = js ''I've uploaded a math problem. Can you help me?''"

definition ANALYZE_FAILED_TEXT :: jsstring where
  "ANALYZE_FAILED_TEXT =
     (js ''I'm sorry, I had trouble seeing that image. Could you try uploading it again?'')"

definition CHAT_FAILED_TEXT :: jsstring where
  "CHAT_FAILED_TEXT = js ''I'm sorry, my thoughts are a bit scattered. Could you repeat that?''"

subsection \<open>startInitialAnalysis\<close>

text \<open>
  The user message of line 48, with the data URI \<^verbatim>\<open>`data:${type};base64,${image}`\<close>;
  \<open>img\<close> stands for the parameter \<^verbatim>\<open>image\<close>.
\<close>

definition upload_message :: "jsstring \<Rightarrow> jsstring \<Rightarrow> message" where
  "upload_message img type =
     \<lparr>role = User, content = USER_UPLOAD_TEXT,
      image' = Some (js ''data:'' @ type @ js '';base64,'' @ img)\<rparr>"

text \<open>Lines 47 and 48, the part of the handler that runs before the call is awaited.\<close>

definition startInitialAnalysis_begin :: "jsstring \<Rightarrow> jsstring \<Rightarrow> state \<Rightarrow> state" where
  "startInitialAnalysis_begin img type s =
     setMessages (\<lambda>_. [upload_message img type]) (setIsLoading True s)"

text \<open>
  Lines 50 to 58, from the moment the call \<open>r\<close> has settled: the part of the handler
  that runs on the state as it is then. (\<^verbatim>\<open>console.error\<close> only logs.)
\<close>

definition startInitialAnalysis_settle :: "error + jsstring \<Rightarrow> state \<Rightarrow> error option \<times> state" where
  "startInitialAnalysis_settle r =
     try_catch_finally
       (\<lambda>s. case r of
               Inl e \<Rightarrow> (Some e, s)
             | Inr response \<Rightarrow>
                 (None, setMessages (\<lambda>prev. prev @ [\<lparr>role = Model, content = response, image' = None\<rparr>]) s))
       (\<lambda>error s.
          (None, setMessages (\<lambda>prev. prev @ [\<lparr>role = Model, content = ANALYZE_FAILED_TEXT, image' = None\<rparr>]) s))
       (setIsLoading False)"

text \<open>
  The handler run without interruption. \<^verbatim>\<open>analyzeMathProblem(image, type)\<close> is called
  without a history, which is then the default \<^verbatim>\<open>[]\<close>.
\<close>

definition startInitialAnalysis ::
  "jsstring option \<Rightarrow> remote \<Rightarrow> jsstring \<Rightarrow> jsstring \<Rightarrow> state \<Rightarrow> outcome"
where
  "startInitialAnalysis GEMINI_API_KEY remote img type s =
     (let s1 = startInitialAnalysis_begin img type s;
          (r, reqs) = analyzeMathProblem GEMINI_API_KEY remote img type ([] :: unit list);
          (e, s2) = startInitialAnalysis_settle r s1
      in \<lparr>uncaught = e, final = s2, requests = reqs\<rparr>)"

subsection \<open>handleSendMessage\<close>

text \<open>Lines 65 to 68, the part that runs before the call is awaited.\<close>

definition handleSendMessage_begin :: "state \<Rightarrow> state" where
  "handleSendMessage_begin s =
     (let userMessage = input s in
      setIsLoading True
        (setMessages (\<lambda>prev. prev @ [\<lparr>role = User, content = userMessage, image' = None\<rparr>])
          (setInput [] s)))"

text \<open>Lines 77 to 83, from the moment the call \<open>r\<close> has settled.\<close>

definition handleSendMessage_settle :: "error + jsstring \<Rightarrow> state \<Rightarrow> error option \<times> state" where
  "handleSendMessage_settle r =
     try_catch_finally
       (\<lambda>s. case r of
               Inl e \<Rightarrow> (Some e, s)
             | Inr response \<Rightarrow>
                 (None, setMessages (\<lambda>prev. prev @ [\<lparr>role = Model, content = response, image' = None\<rparr>]) s))
       (\<lambda>error s.
          (None, setMessages (\<lambda>prev. prev @ [\<lparr>role = Model, content = CHAT_FAILED_TEXT, image' = None\<rparr>]) s))
       (setIsLoading False)"

text \<open>
  The handler run without interruption. The history of lines 71 to 74 is built from
  \<^verbatim>\<open>messages\<close>, the value the state had when the handler was called, not from the
  transcript with the new user message. (\<^verbatim>\<open>e.preventDefault()\<close> has no effect on the
  state.)
\<close>

definition handleSendMessage :: "jsstring option \<Rightarrow> remote \<Rightarrow> state \<Rightarrow> outcome" where
  "handleSendMessage GEMINI_API_KEY remote s =
     (if trim (input s) = [] \<or> isLoading s then \<lparr>uncaught = None, final = s, requests = []\<rparr>
      else
        let userMessage = input s;
            s1 = handleSendMessage_begin s;
            history = map (\<lambda>m. HistoryEntry (role m) [Text (content m)]) (messages s);
            (r, reqs) = chatWithTutor GEMINI_API_KEY remote userMessage history;
            (e, s2) = handleSendMessage_settle r s1
        in \<lparr>uncaught = e, final = s2, requests = reqs\<rparr>)"

subsection \<open>resetTutor and the form controls\<close>

definition resetTutor :: "state \<Rightarrow> state" where
  "resetTutor s = setInput [] (setMimeType None (setSelectedImage None (setMessages (\<lambda>_. []) s)))"

text \<open>The \<^verbatim>\<open>disabled\<close> attribute of the text input (line 239).\<close>

definition input_disabled :: "state \<Rightarrow> bool" where
  "input_disabled s = (isLoading s \<or> length (messages s) = 0)"

text \<open>The \<^verbatim>\<open>disabled\<close> attribute of the submit button of the form (line 244).\<close>

definition submit_disabled :: "state \<Rightarrow> bool" where
  "submit_disabled s = (trim (input s) = [] \<or> isLoading s \<or> length (messages s) = 0)"

subsection \<open>The component as an event loop\<close>

text \<open>The state of the component when it is mounted (lines 16 to 20).\<close>

definition initial_state :: state where
  "initial_state =
     \<lparr>messages = [], input = [], isLoading = False, selectedImage = None, mimeType = None\<rparr>"

text \<open>
  The callback \<^verbatim>\<open>reader.onloadend\<close> of handleImageUpload (lines 34 to 41), as far as it
  runs before the call of startInitialAnalysis is awaited, for a file of type
  \<open>fileType\<close> whose data URL holds \<open>base64String\<close> after its comma.
\<close>

definition handleImageUpload_onloadend :: "jsstring \<Rightarrow> jsstring \<Rightarrow> state \<Rightarrow> state" where
  "handleImageUpload_onloadend base64String fileType s =
     startInitialAnalysis_begin base64String fileType
       (setMimeType (Some fileType) (setSelectedImage (Some base64String) s))"

text \<open>
  A call of the Tutor Client that has been made and has not settled yet, with what it
  will settle to. resetTutor does not cancel it.
\<close>

datatype call = AnalyzeCall "error + jsstring" | ChatCall "error + jsstring"

text \<open>
  The component between two events: its state, the calls in flight, and the requests
  sent to the remote model so far.
\<close>

record world =
  ui :: state
  pending :: "call list"
  sent :: "request list"

text \<open>
  The events of the component:
  \<^item> \<open>ImageLoaded\<close>: the file reader of handleImageUpload has finished. A file is picked
    on the welcome screen and read in the background, so this may happen in any state.
  \<^item> \<open>Change\<close>: the user edits the text field (line 237); a disabled field (line 239)
    takes no input.
  \<^item> \<open>Submit\<close>: the form is submitted (line 223) and handleSendMessage runs up to its
    call. The handler is run on every submission, whether or not the submit button
    (line 244) is enabled.
  \<^item> \<open>Reset\<close>: the reset button (line 226), which is never disabled.
  \<^item> \<open>Settle i\<close>: the call in flight at position \<open>i\<close> settles, and the rest of its handler
    runs on the state as it is then.
\<close>

datatype event = ImageLoaded jsstring jsstring | Change jsstring | Submit | Reset | Settle nat

definition settle_call :: "call \<Rightarrow> state \<Rightarrow> state" where
  "settle_call c s =
     (case c of
        AnalyzeCall r \<Rightarrow> snd (startInitialAnalysis_settle r s)
      | ChatCall r \<Rightarrow> snd (handleSendMessage_settle r s))"

fun step :: "jsstring option \<Rightarrow> remote \<Rightarrow> world \<Rightarrow> event \<Rightarrow> world" where
  "step GEMINI_API_KEY remote w (ImageLoaded base64String fileType) =
     (let (r, reqs) = analyzeMathProblem GEMINI_API_KEY remote base64String fileType ([] :: unit list)
      in \<lparr>ui = handleImageUpload_onloadend base64String fileType (ui w),
          pending = pending w @ [AnalyzeCall r], sent = sent w @ reqs\<rparr>)"
| "step GEMINI_API_KEY remote w (Change v) =
     (if input_disabled (ui w) then w else w\<lparr>ui := setInput v (ui w)\<rparr>)"
| "step GEMINI_API_KEY remote w Submit =
     (let s = ui w in
      if trim (input s) = [] \<or> isLoading s then w
      else
        let history = map (\<lambda>m. HistoryEntry (role m) [Text (content m)]) (messages s);
            (r, reqs) = chatWithTutor GEMINI_API_KEY remote (input s) history
        in \<lparr>ui = handleSendMessage_begin s, pending = pending w @ [ChatCall r],
            sent = sent w @ reqs\<rparr>)"
| "step GEMINI_API_KEY remote w Reset = w\<lparr>ui := resetTutor (ui w)\<rparr>"
| "step GEMINI_API_KEY remote w (Settle i) =
     (if i < length (pending w)
      then w\<lparr>ui := settle_call (pending w ! i) (ui w),
             pending := take i (pending w) @ drop (Suc i) (pending w)\<rparr>
      else w)"

text \<open>The component after a sequence of events, from the moment it is mounted.\<close>

definition run :: "jsstring option \<Rightarrow> remote \<Rightarrow> event list \<Rightarrow> world" where
  "run GEMINI_API_KEY remote events =
     foldl (step GEMINI_API_KEY remote) \<lparr>ui = initial_state, pending = [], sent = []\<rparr> events"

subsection \<open>The projection of the transcript, as specified\<close>

text \<open>
  The Remote History Entry of the specification: a Message \<^verbatim>\<open>{role, content, image?}\<close> maps
  to \<^verbatim>\<open>{role, parts: [{text: content}]}\<close>. It is compared below with the history that
  handleSendMessage builds.
\<close>

definition remote_history_entry :: "message \<Rightarrow> history_entry" where
  "remote_history_entry m = HistoryEntry (role m) [Text (content m)]"

subsection \<open>Concrete inputs\<close>

text \<open>Three remote models: one that answers, one that is unreachable, one that answers without text.\<close>

definition example_remote_ok :: remote where
  "example_remote_ok req = Inr (Some (js ''Let's start by identifying the function...''))"

definition example_remote_down :: remote where
  "example_remote_down req = Inl (Error (js ''fetch failed''))"

definition example_remote_silent :: remote where
  "example_remote_silent req = Inr None"

definition example_old_message :: message where
  "example_old_message =
     \<lparr>role = Model, content = js ''What is the derivative of x^2?'', image' = None\<rparr>"

text \<open>A conversation after one analysed image, with a question entered.\<close>

definition example_state_chat :: state where
  "example_state_chat =
     \<lparr>messages = [\<lparr>role = User, content = js ''a'', image' = Some (js ''data:image/png;base64,AAAA'')\<rparr>,
                  \<lparr>role = Model, content = js ''b'', image' = None\<rparr>],
      input = js ''why?'', isLoading = False, selectedImage = Some (js ''AAAA''),
      mimeType = Some (js ''image/png'')\<rparr>"

text \<open>The same conversation while a request is in flight.\<close>

definition example_state_loading :: state where
  "example_state_loading = example_state_chat\<lparr>isLoading := True\<rparr>"

text \<open>The same conversation with only white space entered.\<close>

definition example_state_blank :: state where
  "example_state_blank = example_state_chat\<lparr>input := [0x20, 0x09, 0xA0, 0x2003, 0xFEFF]\<rparr>"

text \<open>
  An image is loaded, the user resets while the analysis is in flight, the analysis
  settles, and the user types \<open>hi\<close>.
\<close>

definition example_events_reset_in_flight :: "event list" where
  "example_events_reset_in_flight =
     [ImageLoaded (js ''AAAA'') (js ''image/png''), Reset, Settle 0, Change (js ''hi'')]"

text \<open>The state these events lead to: a transcript of one model message, no image turn.\<close>

definition example_state_ghost :: state where
  "example_state_ghost =
     \<lparr>messages = [\<lparr>role = Model, content = js ''Let's start by identifying the function...'',
                   image' = None\<rparr>],
      input = js ''hi'', isLoading = False, selectedImage = None, mimeType = None\<rparr>"

section \<open>Basic facts about the handlers\<close>

lemma dropWhile_all_iff: "(\<forall>x\<in>set (dropWhile P xs). P x) = (\<forall>x\<in>set xs. P x)"
  by (induction xs) auto

lemma trim_Nil_iff: "(trim str = []) = (\<forall>c\<in>set str. isWhiteSpace c)"
  by (simp add: trim_def dropWhile_eq_Nil_conv dropWhile_all_iff js_def)

lemma messages_setters:
  "messages (setMessages f s) = f (messages s)"
  "messages (setInput v s) = messages s"
  "messages (setIsLoading b s) = messages s"
  "messages (setSelectedImage i s) = messages s"
  "messages (setMimeType i s) = messages s"
  by (simp_all add: setMessages_def setInput_def setIsLoading_def setSelectedImage_def setMimeType_def)

lemma startInitialAnalysis_settle_eq:
  "startInitialAnalysis_settle r s =
     (None, setIsLoading False (setMessages (\<lambda>prev. prev @
        [\<lparr>role = Model, content = (case r of Inl e \<Rightarrow> ANALYZE_FAILED_TEXT | Inr t \<Rightarrow> t), image' = None\<rparr>]) s))"
  by (cases r) (simp_all add: startInitialAnalysis_settle_def try_catch_finally_def)

lemma handleSendMessage_settle_eq:
  "handleSendMessage_settle r s =
     (None, setIsLoading False (setMessages (\<lambda>prev. prev @
        [\<lparr>role = Model, content = (case r of Inl e \<Rightarrow> CHAT_FAILED_TEXT | Inr t \<Rightarrow> t), image' = None\<rparr>]) s))"
  by (cases r) (simp_all add: handleSendMessage_settle_def try_catch_finally_def)

lemma startInitialAnalysis_eq:
  "startInitialAnalysis K remote img type s =
     \<lparr>uncaught = None,
      final = snd (startInitialAnalysis_settle (fst (analyzeMathProblem K remote img type ([]::unit list)))
                (startInitialAnalysis_begin img type s)),
      requests = snd (analyzeMathProblem K remote img type ([]::unit list))\<rparr>"
  by (simp add: startInitialAnalysis_def startInitialAnalysis_settle_eq split: prod.splits)

lemma handleSendMessage_eq:
  "trim (input s) \<noteq> [] \<Longrightarrow> \<not> isLoading s \<Longrightarrow>
   handleSendMessage K remote s =
     \<lparr>uncaught = None,
      final = snd (handleSendMessage_settle
                (fst (chatWithTutor K remote (input s)
                        (map (\<lambda>m. HistoryEntry (role m) [Text (content m)]) (messages s))))
                (handleSendMessage_begin s)),
      requests = snd (chatWithTutor K remote (input s)
                        (map (\<lambda>m. HistoryEntry (role m) [Text (content m)]) (messages s)))\<rparr>"
  by (simp add: handleSendMessage_def handleSendMessage_settle_eq Let_def split: prod.splits)

lemma handleSendMessage_skip:
  "trim (input s) = [] \<or> isLoading s \<Longrightarrow>
   handleSendMessage K remote s = \<lparr>uncaught = None, final = s, requests = []\<rparr>"
  by (simp add: handleSendMessage_def)

lemma messages_handleSendMessage_begin:
  "messages (handleSendMessage_begin s) =
     messages s @ [\<lparr>role = User, content = input s, image' = None\<rparr>]"
  by (simp add: handleSendMessage_begin_def Let_def messages_setters)

lemma messages_startInitialAnalysis_begin:
  "messages (startInitialAnalysis_begin img type s) = [upload_message img type]"
  by (simp add: startInitialAnalysis_begin_def messages_setters)

text \<open>
  A handler run without interruption is the event that starts it followed by the
  settling of its call.
\<close>

lemma step_Submit_Settle:
  "ui (step K remote (step K remote w Submit) (Settle (length (pending w)))) =
     final (handleSendMessage K remote (ui w)) \<and>
   sent (step K remote (step K remote w Submit) (Settle (length (pending w)))) =
     sent w @ requests (handleSendMessage K remote (ui w))"
proof (cases "trim (input (ui w)) = [] \<or> isLoading (ui w)")
  case True
  then show ?thesis
    by (simp add: handleSendMessage_skip)
next
  case False
  then show ?thesis
    by (simp add: handleSendMessage_eq Let_def settle_call_def split: prod.splits)
qed

lemma step_ImageLoaded_Settle:
  "ui (step K remote (step K remote w (ImageLoaded base64String fileType))
         (Settle (length (pending w)))) =
     final (startInitialAnalysis K remote base64String fileType
       (setMimeType (Some fileType) (setSelectedImage (Some base64String) (ui w)))) \<and>
   sent (step K remote (step K remote w (ImageLoaded base64String fileType))
         (Settle (length (pending w)))) =
     sent w @ requests (startInitialAnalysis K remote base64String fileType
       (setMimeType (Some fileType) (setSelectedImage (Some base64String) (ui w))))"
  by (simp add: startInitialAnalysis_eq handleImageUpload_onloadend_def settle_call_def
      split: prod.splits)

lemma step_empty_transcript:
  assumes "messages (ui w) = [] \<longrightarrow> input (ui w) = []"
  shows "messages (ui (step K remote w ev)) = [] \<longrightarrow> input (ui (step K remote w ev)) = []"
proof (cases ev)
  case (ImageLoaded base64String fileType)
  then show ?thesis
    by (simp add: handleImageUpload_onloadend_def messages_startInitialAnalysis_begin
        split: prod.splits)
next
  case (Change v)
  with assms show ?thesis
    by (simp add: input_disabled_def setInput_def)
next
  case Submit
  with assms show ?thesis
    by (simp add: Let_def messages_handleSendMessage_begin split: prod.splits)
next
  case Reset
  then show ?thesis
    by (simp add: resetTutor_def setInput_def)
next
  case (Settle i)
  with assms show ?thesis
    by (simp add: settle_call_def startInitialAnalysis_settle_eq handleSendMessage_settle_eq
        messages_setters split: call.splits)
qed

lemma run_empty_transcript:
  "messages (ui (run K remote events)) = [] \<longrightarrow> input (ui (run K remote events)) = []"
proof (induction events rule: rev_induct)
  case Nil
  show ?case by (simp add: run_def initial_state_def)
next
  case (snoc ev events)
  have "run K remote (events @ [ev]) = step K remote (run K remote events) ev"
    by (simp add: run_def)
  with snoc step_empty_transcript [of "run K remote events" K remote ev] show ?case
    by simp
qed

section \<open>The claims\<close>

subsection \<open>C1: when handleSendMessage does nothing\<close>

text \<open>
  Claim C1 says that handleSendMessage is a no-op when the text is empty or white space,
  when a request is in flight, or when the conversation has no prior image turn.
  The handler has no test for an image turn. When the user resets while the analysis of
  an image is in flight, the answer that arrives later is appended to the emptied
  transcript: the conversation is then one model message, with no image turn, the text
  field is enabled, and with \<open>hi\<close> entered handleSendMessage appends the user message,
  sends a request and appends the answer.
\<close>

theorem handleSendMessage_no_image_turn_counterexample:
  "ui (run (Some (js ''key'')) example_remote_ok example_events_reset_in_flight) = example_state_ghost \<and>
   map image' (messages example_state_ghost) = [None] \<and>
   length (messages example_state_ghost) = 1 \<and>
   length (messages (final (handleSendMessage (Some (js ''key'')) example_remote_ok example_state_ghost))) = 3 \<and>
   requests (handleSendMessage (Some (js ''key'')) example_remote_ok example_state_ghost) =
     [chat_request (Some (js ''key'')) (js ''hi'')
        [HistoryEntry Model [Text (js ''Let's start by identifying the function...'')]]]"
proof -
  have reach: "ui (run (Some (js ''key'')) example_remote_ok example_events_reset_in_flight) = example_state_ghost"
    by (simp add: run_def example_events_reset_in_flight_def example_state_ghost_def initial_state_def
        analyzeMathProblem_def falsy_def example_remote_ok_def or_else_def js_def
        handleImageUpload_onloadend_def startInitialAnalysis_begin_def resetTutor_def
        settle_call_def startInitialAnalysis_settle_eq input_disabled_def
        setMessages_def setInput_def setIsLoading_def setSelectedImage_def setMimeType_def)
  have go: "trim (input example_state_ghost) \<noteq> [] \<and> \<not> isLoading example_state_ghost"
    by (simp add: example_state_ghost_def trim_def isWhiteSpace_def js_def)
  have sends: "handleSendMessage (Some (js ''key'')) example_remote_ok example_state_ghost =
     \<lparr>uncaught = None,
      final = example_state_ghost\<lparr>messages := messages example_state_ghost @
         [\<lparr>role = User, content = js ''hi'', image' = None\<rparr>,
          \<lparr>role = Model, content = js ''Let's start by identifying the function...'', image' = None\<rparr>],
         input := []\<rparr>,
      requests = [chat_request (Some (js ''key'')) (js ''hi'')
        [HistoryEntry Model [Text (js ''Let's start by identifying the function...'')]]]\<rparr>"
    using go
    by (simp add: handleSendMessage_eq handleSendMessage_settle_eq handleSendMessage_begin_def)
       (simp add: example_state_ghost_def chatWithTutor_def falsy_def example_remote_ok_def or_else_def
          js_def setMessages_def setInput_def setIsLoading_def)
  show ?thesis
    using reach by (simp add: sends) (simp add: example_state_ghost_def)
qed

text \<open>
  Claim C1 as amended: handleSendMessage is a no-op (it returns the state as it is and
  sends no request) whenever the text is empty or white space or a request is in flight,
  and so is any number of calls in a row while a request is in flight. It is also a
  no-op in every state that the component can reach, by any sequence of events, in which
  the transcript is empty or the submit button is disabled: in a reachable state with an
  empty transcript the text is empty, so that an empty conversation stays at length 0.
  It does not test for an image turn.
\<close>

theorem handleSendMessage_noop:
  "((\<forall>c\<in>set (input s). isWhiteSpace c) \<or> isLoading s \<longrightarrow>
      handleSendMessage K remote s = \<lparr>uncaught = None, final = s, requests = []\<rparr>) \<and>
   (isLoading s \<longrightarrow> ((\<lambda>s. final (handleSendMessage K remote s)) ^^ n) s = s) \<and>
   (messages (ui (run K' remote' events)) = [] \<or> submit_disabled (ui (run K' remote' events)) \<longrightarrow>
      handleSendMessage K remote (ui (run K' remote' events)) =
        \<lparr>uncaught = None, final = ui (run K' remote' events), requests = []\<rparr>)"
proof -
  have skip: "isLoading s \<longrightarrow> ((\<lambda>s. final (handleSendMessage K remote s)) ^^ n) s = s"
    by (induction n) (simp_all add: handleSendMessage_skip)
  have empty: "messages (ui (run K' remote' events)) = [] \<or> submit_disabled (ui (run K' remote' events)) \<longrightarrow>
      handleSendMessage K remote (ui (run K' remote' events)) =
        \<lparr>uncaught = None, final = ui (run K' remote' events), requests = []\<rparr>"
    using run_empty_transcript [of K' remote' events]
    by (auto simp add: handleSendMessage_def trim_def submit_disabled_def)
  show ?thesis
    using skip empty by (simp add: handleSendMessage_def trim_Nil_iff)
qed

theorem handleSendMessage_noop_witness:
  "isLoading example_state_loading \<and> input example_state_loading = js ''why?'' \<and>
   final (handleSendMessage (Some (js ''key'')) example_remote_ok example_state_loading) = example_state_loading \<and>
   requests (handleSendMessage (Some (js ''key'')) example_remote_ok example_state_loading) = [] \<and>
   ((\<lambda>s. final (handleSendMessage (Some (js ''key'')) example_remote_ok s)) ^^ 3) example_state_loading
     = example_state_loading \<and>
   \<not> isLoading example_state_blank \<and> length (input example_state_blank) = 5 \<and>
   list_all isWhiteSpace (input example_state_blank) \<and>
   final (handleSendMessage (Some (js ''key'')) example_remote_ok example_state_blank) = example_state_blank \<and>
   requests (handleSendMessage (Some (js ''key'')) example_remote_ok example_state_blank) = [] \<and>
   messages (ui (run (Some (js ''key'')) example_remote_ok [ImageLoaded (js ''AAAA'') (js ''image/png''), Reset])) = [] \<and>
   requests (handleSendMessage (Some (js ''key'')) example_remote_ok
     (ui (run (Some (js ''key'')) example_remote_ok [ImageLoaded (js ''AAAA'') (js ''image/png''), Reset]))) = []"
proof -
  have blank: "list_all isWhiteSpace (input example_state_blank)"
    by (simp add: example_state_blank_def isWhiteSpace_def)
  have emptied: "messages (ui (run (Some (js ''key'')) example_remote_ok
      [ImageLoaded (js ''AAAA'') (js ''image/png''), Reset])) = []"
    by (simp add: run_def resetTutor_def messages_setters split: prod.splits)
  show ?thesis
    using blank emptied
      handleSendMessage_noop [of example_state_loading "Some (js ''key'')" example_remote_ok 3]
      handleSendMessage_noop [of example_state_blank "Some (js ''key'')" example_remote_ok 0]
      handleSendMessage_noop [of _ "Some (js ''key'')" example_remote_ok _ "Some (js ''key'')"
        example_remote_ok "[ImageLoaded (js ''AAAA'') (js ''image/png''), Reset]"]
    by (simp add: example_state_loading_def example_state_blank_def example_state_chat_def
        list_all_iff)
qed

subsection \<open>C2: a successful startInitialAnalysis\<close>

text \<open>
  Claim C2 says that, from every prior transcript, a successful startInitialAnalysis
  appends exactly two messages and leaves the messages already present unchanged.
  Line 48 sets the transcript to the one new user message: from a transcript of one
  message, the transcript after a successful analysis has two messages, not three, and
  the earlier message is gone.
\<close>

theorem startInitialAnalysis_replaces_counterexample:
  "messages (initial_state\<lparr>messages := [example_old_message]\<rparr>) = [example_old_message] \<and>
   fst (analyzeMathProblem (Some (js ''key'')) example_remote_ok (js ''AAAA'') (js ''image/png'') ([]::unit list))
     = Inr (js ''Let's start by identifying the function...'') \<and>
   messages (final (startInitialAnalysis (Some (js ''key'')) example_remote_ok (js ''AAAA'') (js ''image/png'')
      (initial_state\<lparr>messages := [example_old_message]\<rparr>))) =
     [\<lparr>role = User, content = USER_UPLOAD_TEXT, image' = Some (js ''data:image/png;base64,AAAA'')\<rparr>,
      \<lparr>role = Model, content = js ''Let's start by identifying the function...'', image' = None\<rparr>] \<and>
   example_old_message \<notin> set (messages (final (startInitialAnalysis (Some (js ''key'')) example_remote_ok
      (js ''AAAA'') (js ''image/png'') (initial_state\<lparr>messages := [example_old_message]\<rparr>))))"
  by (simp add: startInitialAnalysis_eq startInitialAnalysis_settle_eq messages_setters
      messages_startInitialAnalysis_begin analyzeMathProblem_def falsy_def example_remote_ok_def
      or_else_def upload_message_def example_old_message_def initial_state_def js_def)

text \<open>
  Claim C2 as amended: from every prior state, after a successful startInitialAnalysis
  the transcript is exactly two messages, first the user message with the image field
  set to the data URI, then the model message with no image field; the messages present
  before are discarded, so that two messages are appended only to an empty transcript.
\<close>

theorem startInitialAnalysis_success:
  assumes "fst (analyzeMathProblem K remote img type ([]::unit list)) = Inr response"
  shows "messages (final (startInitialAnalysis K remote img type s)) =
           [\<lparr>role = User, content = USER_UPLOAD_TEXT, image' = Some (js ''data:'' @ type @ js '';base64,'' @ img)\<rparr>,
            \<lparr>role = Model, content = response, image' = None\<rparr>]"
  using assms
  by (simp add: startInitialAnalysis_eq startInitialAnalysis_settle_eq messages_setters
      messages_startInitialAnalysis_begin upload_message_def)

theorem startInitialAnalysis_success_witness:
  "fst (analyzeMathProblem (Some (js ''key'')) example_remote_ok (js ''AAAA'') (js ''image/jpeg'') ([]::unit list))
     = Inr (js ''Let's start by identifying the function...'') \<and>
   messages (final (startInitialAnalysis (Some (js ''key'')) example_remote_ok (js ''AAAA'') (js ''image/jpeg'') initial_state)) =
     [\<lparr>role = User, content = USER_UPLOAD_TEXT, image' = Some (js ''data:image/jpeg;base64,AAAA'')\<rparr>,
      \<lparr>role = Model, content = js ''Let's start by identifying the function...'', image' = None\<rparr>]"
proof -
  have h: "fst (analyzeMathProblem (Some (js ''key'')) example_remote_ok (js ''AAAA'') (js ''image/jpeg'') ([]::unit list))
     = Inr (js ''Let's start by identifying the function...'')"
    by (simp add: analyzeMathProblem_def falsy_def example_remote_ok_def or_else_def js_def)
  show ?thesis using h startInitialAnalysis_success [OF h, of initial_state] by (simp add: js_def)
qed

subsection \<open>C3: the history sent with a chat message\<close>

text \<open>
  Claim C3: when handleSendMessage goes through, the history it passes to chatWithTutor,
  and that chatWithTutor sends on when the key is set, is the projection of the messages
  of the transcript before the new user message, each to its role and one text part
  holding its content; the projection does not depend on the image field; the transcript
  \<open>[{user, a}, {model, b}]\<close> projects to the two entries of the claim.
\<close>

theorem handleSendMessage_history:
  "(trim (input s) \<noteq> [] \<and> \<not> isLoading s \<longrightarrow>
      requests (handleSendMessage K remote s) =
        snd (chatWithTutor K remote (input s) (map remote_history_entry (messages s))) \<and>
      (\<not> falsy K \<longrightarrow>
         requests (handleSendMessage K remote s) =
           [SendMessage (GoogleGenAI K) MODEL_NAME (Config SYSTEM_INSTRUCTION HIGH)
              (map remote_history_entry (messages s)) (input s)])) \<and>
   remote_history_entry (m\<lparr>image' := i\<rparr>) = remote_history_entry m \<and>
   map remote_history_entry
     [\<lparr>role = User, content = js ''a'', image' = x\<rparr>, \<lparr>role = Model, content = js ''b'', image' = y\<rparr>] =
     [HistoryEntry User [Text (js ''a'')], HistoryEntry Model [Text (js ''b'')]]"
proof -
  have proj: "(\<lambda>m. HistoryEntry (role m) [Text (content m)]) = remote_history_entry"
    by (simp add: remote_history_entry_def fun_eq_iff)
  have sent: "\<not> falsy K \<Longrightarrow> snd (chatWithTutor K remote msg h) = [chat_request K msg h]" for msg h
    by (simp add: chatWithTutor_def Let_def split: sum.splits)
  show ?thesis
    by (simp add: handleSendMessage_eq proj sent chat_request_def) (simp add: remote_history_entry_def)
qed

theorem handleSendMessage_history_witness:
  "trim (input example_state_chat) \<noteq> [] \<and> \<not> isLoading example_state_chat \<and> \<not> falsy (Some (js ''key'')) \<and>
   requests (handleSendMessage (Some (js ''key'')) example_remote_ok example_state_chat) =
     [SendMessage (GoogleGenAI (Some (js ''key''))) MODEL_NAME (Config SYSTEM_INSTRUCTION HIGH)
        [HistoryEntry User [Text (js ''a'')], HistoryEntry Model [Text (js ''b'')]] (js ''why?'')]"
  using handleSendMessage_history [of example_state_chat "Some (js ''key'')" example_remote_ok]
  by (simp add: example_state_chat_def trim_def isWhiteSpace_def falsy_def remote_history_entry_def
      chatWithTutor_def chat_request_def example_remote_ok_def js_def)

subsection \<open>C4: a failed remote call\<close>

text \<open>
  Claim C4: no error escapes startInitialAnalysis or handleSendMessage, and when
  analyzeMathProblem, respectively chatWithTutor, throws, the handler appends a model
  message whose content is the fixed apology of that handler; the two apologies are the
  two literals below and differ.
\<close>

theorem remote_failure_fallback:
  "uncaught (startInitialAnalysis K remote img type s) = None \<and>
   uncaught (handleSendMessage K remote s) = None \<and>
   (fst (analyzeMathProblem K remote img type ([]::unit list)) = Inl e \<longrightarrow>
      messages (final (startInitialAnalysis K remote img type s)) =
        messages (startInitialAnalysis_begin img type s) @
          [\<lparr>role = Model, content = ANALYZE_FAILED_TEXT, image' = None\<rparr>]) \<and>
   (trim (input s) \<noteq> [] \<and> \<not> isLoading s \<and>
    fst (chatWithTutor K remote (input s)
           (map (\<lambda>m. HistoryEntry (role m) [Text (content m)]) (messages s))) = Inl e' \<longrightarrow>
      messages (final (handleSendMessage K remote s)) =
        messages (handleSendMessage_begin s) @
          [\<lparr>role = Model, content = CHAT_FAILED_TEXT, image' = None\<rparr>]) \<and>
   ANALYZE_FAILED_TEXT = js ''I'm sorry, I had trouble seeing that image. Could you try uploading it again?'' \<and>
   CHAT_FAILED_TEXT = js ''I'm sorry, my thoughts are a bit scattered. Could you repeat that?'' \<and>
   ANALYZE_FAILED_TEXT \<noteq> CHAT_FAILED_TEXT"
proof -
  have u1: "uncaught (startInitialAnalysis K remote img type s) = None"
    by (simp add: startInitialAnalysis_eq)
  have u2: "uncaught (handleSendMessage K remote s) = None"
    by (cases "trim (input s) = [] \<or> isLoading s")
       (simp_all add: handleSendMessage_skip handleSendMessage_eq)
  have a: "fst (analyzeMathProblem K remote img type ([]::unit list)) = Inl e \<longrightarrow>
      messages (final (startInitialAnalysis K remote img type s)) =
        messages (startInitialAnalysis_begin img type s) @
          [\<lparr>role = Model, content = ANALYZE_FAILED_TEXT, image' = None\<rparr>]"
    by (simp add: startInitialAnalysis_eq startInitialAnalysis_settle_eq messages_setters)
  have c: "trim (input s) \<noteq> [] \<and> \<not> isLoading s \<and>
    fst (chatWithTutor K remote (input s)
           (map (\<lambda>m. HistoryEntry (role m) [Text (content m)]) (messages s))) = Inl e' \<longrightarrow>
      messages (final (handleSendMessage K remote s)) =
        messages (handleSendMessage_begin s) @
          [\<lparr>role = Model, content = CHAT_FAILED_TEXT, image' = None\<rparr>]"
    by (simp add: handleSendMessage_eq handleSendMessage_settle_eq messages_setters)
  have d: "ANALYZE_FAILED_TEXT \<noteq> CHAT_FAILED_TEXT"
    by (simp add: ANALYZE_FAILED_TEXT_def CHAT_FAILED_TEXT_def js_def)
  show ?thesis using u1 u2 a c d
    by (simp add: ANALYZE_FAILED_TEXT_def CHAT_FAILED_TEXT_def js_def)
qed

theorem remote_failure_fallback_witness:
  "fst (analyzeMathProblem (Some (js ''key'')) example_remote_down (js ''AAAA'') (js ''image/png'') ([]::unit list))
     = Inl (Error (js ''fetch failed'')) \<and>
   messages (final (startInitialAnalysis (Some (js ''key'')) example_remote_down (js ''AAAA'') (js ''image/png'')
      example_state_chat)) =
     [upload_message (js ''AAAA'') (js ''image/png''),
      \<lparr>role = Model, content = ANALYZE_FAILED_TEXT, image' = None\<rparr>] \<and>
   trim (input example_state_chat) \<noteq> [] \<and> \<not> isLoading example_state_chat \<and>
   fst (chatWithTutor (Some (js ''key'')) example_remote_down (input example_state_chat)
          (map (\<lambda>m. HistoryEntry (role m) [Text (content m)]) (messages example_state_chat)))
     = Inl (Error (js ''fetch failed'')) \<and>
   last (messages (final (handleSendMessage (Some (js ''key'')) example_remote_down example_state_chat))) =
     \<lparr>role = Model, content = CHAT_FAILED_TEXT, image' = None\<rparr> \<and>
   uncaught (handleSendMessage (Some (js ''key'')) example_remote_down example_state_chat) = None"
proof -
  have h1: "fst (analyzeMathProblem (Some (js ''key'')) example_remote_down (js ''AAAA'') (js ''image/png'') ([]::unit list))
     = Inl (Error (js ''fetch failed''))"
    by (simp add: analyzeMathProblem_def falsy_def example_remote_down_def js_def)
  have h2: "trim (input example_state_chat) \<noteq> [] \<and> \<not> isLoading example_state_chat"
    by (simp add: example_state_chat_def trim_def isWhiteSpace_def js_def)
  have h3: "fst (chatWithTutor (Some (js ''key'')) example_remote_down (input example_state_chat)
          (map (\<lambda>m. HistoryEntry (role m) [Text (content m)]) (messages example_state_chat)))
     = Inl (Error (js ''fetch failed''))"
    by (simp add: chatWithTutor_def falsy_def example_remote_down_def js_def)
  show ?thesis
    using h1 h2 h3
      remote_failure_fallback [of "Some (js ''key'')" example_remote_down "js ''AAAA''" "js ''image/png''"
        example_state_chat "Error (js ''fetch failed'')" "Error (js ''fetch failed'')"]
    by (simp add: messages_startInitialAnalysis_begin)
qed

subsection \<open>C5: resetTutor\<close>

text \<open>
  Claim C5: from every state, in flight or not, after resetTutor the transcript has
  length 0 and the selected image and its MIME type are cleared. (The in-flight flag is
  left as it was.)
\<close>

theorem resetTutor_clears:
  "messages (resetTutor s) = [] \<and> length (messages (resetTutor s)) = 0 \<and>
   selectedImage (resetTutor s) = None \<and> mimeType (resetTutor s) = None \<and>
   isLoading (resetTutor s) = isLoading s"
  by (simp add: resetTutor_def setMessages_def setInput_def setIsLoading_def
      setSelectedImage_def setMimeType_def)

subsection \<open>C6: the transcript only grows\<close>

text \<open>
  Claim C6 says that every operation other than the reset extends the transcript and
  keeps the messages present as a prefix. startInitialAnalysis does not: from a
  transcript of one message, the transcript it leaves does not start with that message.
\<close>

theorem startInitialAnalysis_not_append_counterexample:
  "\<not> prefix (messages (initial_state\<lparr>messages := [example_old_message]\<rparr>))
      (messages (final (startInitialAnalysis (Some (js ''key'')) example_remote_ok (js ''AAAA'') (js ''image/png'')
         (initial_state\<lparr>messages := [example_old_message]\<rparr>))))"
  by (simp add: startInitialAnalysis_eq startInitialAnalysis_settle_eq messages_setters
      messages_startInitialAnalysis_begin upload_message_def example_old_message_def initial_state_def)

text \<open>
  Claim C6 as amended: handleSendMessage, its part before the call, and the part of
  either handler that runs once the call has settled (on whatever the state is then),
  only append: the transcript before is a prefix of the transcript after. The transcript
  is replaced as a whole in two places: startInitialAnalysis sets it to the one new user
  message before its call, and resetTutor empties it.
\<close>

theorem transcript_append_only:
  "prefix (messages s) (messages (final (handleSendMessage K remote s))) \<and>
   prefix (messages s) (messages (handleSendMessage_begin s)) \<and>
   prefix (messages s) (messages (snd (handleSendMessage_settle r s))) \<and>
   prefix (messages s) (messages (snd (startInitialAnalysis_settle r s))) \<and>
   messages (startInitialAnalysis_begin img type s) = [upload_message img type] \<and>
   messages (resetTutor s) = []"
proof -
  have 1: "prefix (messages s) (messages (final (handleSendMessage K remote s)))"
    by (cases "trim (input s) = [] \<or> isLoading s")
       (simp_all add: handleSendMessage_skip handleSendMessage_eq handleSendMessage_settle_eq
          messages_setters messages_handleSendMessage_begin)
  have 2: "prefix (messages s) (messages (handleSendMessage_begin s))"
    by (simp add: messages_handleSendMessage_begin)
  have 3: "prefix (messages s) (messages (snd (handleSendMessage_settle r s)))"
    by (simp add: handleSendMessage_settle_eq messages_setters)
  have 4: "prefix (messages s) (messages (snd (startInitialAnalysis_settle r s)))"
    by (simp add: startInitialAnalysis_settle_eq messages_setters)
  have 5: "messages (resetTutor s) = []"
    by (simp add: resetTutor_def messages_setters)
  show ?thesis using 1 2 3 4 5 by (simp add: messages_startInitialAnalysis_begin)
qed

subsection \<open>C7: the missing key\<close>

text \<open>
  Claim C7: when the API key is absent, analyzeMathProblem and chatWithTutor both throw
  the error \<open>GEMINI_API_KEY is not set\<close>, whatever the remote model and the arguments are,
  and send no request; the error is the result, not a fallback text.
\<close>

theorem missing_key_throws:
  "analyzeMathProblem None remote imageBuffer mt history = (Inl (Error (js ''GEMINI_API_KEY is not set'')), []) \<and>
   chatWithTutor None remote message hist = (Inl (Error (js ''GEMINI_API_KEY is not set'')), [])"
  by (simp add: analyzeMathProblem_def chatWithTutor_def falsy_def MISSING_KEY_def js_def)

subsection \<open>C8: a response without text\<close>

text \<open>
  Claim C8: when the key is set and the remote call resolves with no text (undefined or
  the empty string), analyzeMathProblem and chatWithTutor each return, without throwing,
  a fixed text of their own; the two texts differ.
\<close>

theorem empty_response_fallback:
  "(\<not> falsy K \<and> remote (analyze_request K imageBuffer mt) = Inr t \<and> falsy t \<longrightarrow>
      fst (analyzeMathProblem K remote imageBuffer mt history) =
        Inr (js ''I'm sorry, I couldn't analyze the image. Could you try again?'')) \<and>
   (\<not> falsy K \<and> remote (chat_request K message hist) = Inr t \<and> falsy t \<longrightarrow>
      fst (chatWithTutor K remote message hist) =
        Inr (js ''I'm having trouble thinking right now. Let's try that again.'')) \<and>
   ANALYZE_EMPTY_TEXT \<noteq> CHAT_EMPTY_TEXT"
  by (auto simp add: analyzeMathProblem_def chatWithTutor_def falsy_def or_else_def Let_def
      ANALYZE_EMPTY_TEXT_def CHAT_EMPTY_TEXT_def js_def split: option.splits)

theorem empty_response_fallback_witness:
  "\<not> falsy (Some (js ''key'')) \<and>
   example_remote_silent (analyze_request (Some (js ''key'')) (js ''AAAA'') (js ''image/png'')) = Inr None \<and>
   example_remote_silent (chat_request (Some (js ''key'')) (js ''why?'') []) = Inr None \<and> falsy None \<and>
   fst (analyzeMathProblem (Some (js ''key'')) example_remote_silent (js ''AAAA'') (js ''image/png'') ([]::unit list)) =
     Inr (js ''I'm sorry, I couldn't analyze the image. Could you try again?'') \<and>
   fst (chatWithTutor (Some (js ''key'')) example_remote_silent (js ''why?'') []) =
     Inr (js ''I'm having trouble thinking right now. Let's try that again.'')"
  using empty_response_fallback [of "Some (js ''key'')" example_remote_silent "js ''AAAA''" "js ''image/png''"
      None "[]::unit list" "js ''why?''" "[]"]
  by (simp add: falsy_def example_remote_silent_def js_def)

subsection \<open>C9: the history parameter of analyzeMathProblem\<close>

text \<open>
  Claim C9: analyzeMathProblem does not use its history parameter: with the other
  arguments fixed, any two histories (of any element types) give the same result and the
  same requests. When the key is set the one request sent holds, as contents, the inline
  image data with its MIME type and the fixed prompt, with the fixed system instruction
  (and the fixed model name and thinking level) as configuration.
\<close>

theorem analyzeMathProblem_ignores_history:
  "analyzeMathProblem K remote imageBuffer mt (h1 :: 'a list) =
     analyzeMathProblem K remote imageBuffer mt (h2 :: 'b list) \<and>
   snd (analyzeMathProblem K remote imageBuffer mt h1) =
     (if falsy K then []
      else [GenerateContent (GoogleGenAI K) MODEL_NAME
              [Contents [InlineData imageBuffer mt, TextPart ANALYZE_PROMPT]]
              (Config SYSTEM_INSTRUCTION HIGH)])"
  by (simp add: analyzeMathProblem_def analyze_request_def Let_def split: sum.splits)

subsection \<open>C10: a failed chat message stays in the transcript\<close>

text \<open>
  Claim C10: when handleSendMessage goes through and chatWithTutor throws, the transcript
  afterwards is the transcript before followed by the user's message and the apology of
  the model: it has grown by exactly two messages and is not restored.
\<close>

theorem failed_chat_not_rolled_back:
  assumes "trim (input s) \<noteq> []" and "\<not> isLoading s"
    and "fst (chatWithTutor K remote (input s)
           (map (\<lambda>m. HistoryEntry (role m) [Text (content m)]) (messages s))) = Inl e"
  shows "messages (final (handleSendMessage K remote s)) =
           messages s @ [\<lparr>role = User, content = input s, image' = None\<rparr>,
                         \<lparr>role = Model, content = CHAT_FAILED_TEXT, image' = None\<rparr>] \<and>
         length (messages (final (handleSendMessage K remote s))) = length (messages s) + 2"
  using assms
  by (simp add: handleSendMessage_eq handleSendMessage_settle_eq messages_setters
      messages_handleSendMessage_begin)

theorem failed_chat_not_rolled_back_witness:
  "trim (input example_state_chat) \<noteq> [] \<and> \<not> isLoading example_state_chat \<and>
   fst (chatWithTutor None example_remote_ok (input example_state_chat)
          (map (\<lambda>m. HistoryEntry (role m) [Text (content m)]) (messages example_state_chat)))
     = Inl MISSING_KEY \<and>
   messages (final (handleSendMessage None example_remote_ok example_state_chat)) =
     [\<lparr>role = User, content = js ''a'', image' = Some (js ''data:image/png;base64,AAAA'')\<rparr>,
      \<lparr>role = Model, content = js ''b'', image' = None\<rparr>,
      \<lparr>role = User, content = js ''why?'', image' = None\<rparr>,
      \<lparr>role = Model, content = CHAT_FAILED_TEXT, image' = None\<rparr>]"
proof -
  have h1: "trim (input example_state_chat) \<noteq> []"
    by (simp add: example_state_chat_def trim_def isWhiteSpace_def js_def)
  have h2: "\<not> isLoading example_state_chat"
    by (simp add: example_state_chat_def)
  have h3: "fst (chatWithTutor None example_remote_ok (input example_state_chat)
          (map (\<lambda>m. HistoryEntry (role m) [Text (content m)]) (messages example_state_chat)))
     = Inl MISSING_KEY"
    by (simp add: chatWithTutor_def falsy_def js_def)
  show ?thesis
    using h1 h2 h3 failed_chat_not_rolled_back [OF h1 h2 h3]
    by (simp add: example_state_chat_def)
qed

end
